theory Spec2Isabelle
  imports Complex_Main
begin

section \<open>Findings and the score aggregators\<close>

text \<open>
  The scripts keep their findings as plain JavaScript objects whose \<open>severity\<close> field is
  one of the string literals \<open>'critical'\<close>, \<open>'high'\<close>, \<open>'medium'\<close>, \<open>'low'\<close>. The field is
  kept as a string here, so that a \<open>switch\<close> without a \<open>default\<close> branch is an if-chain
  whose last branch leaves the score unchanged, as in the source. Scores are JavaScript
  numbers that only ever hold integers (sums and differences of small integer literals and
  array lengths), hence \<open>int\<close>.
\<close>

subsection \<open>\<open>scripts/ai-code-review.js\<close>: \<open>AICodeReviewer\<close>\<close>

record issue =
  severity :: string
  message :: string
  line :: nat
  pattern :: string

text \<open>
  \<open>reviewResults\<close> of the constructor. The field \<open>fileAnalysis\<close> (the per-file copies of
  the same lists) is read by the report writer only; the theorems below are stated so that
  they hold for every value of the fields they do not mention.
\<close>

record reviewResults =
  score :: int
  issues :: "issue list"
  suggestions :: "string list"
  positives :: "string list"

definition deductIssue :: "int \<Rightarrow> issue \<Rightarrow> int" where
  "deductIssue = (\<lambda>score i.
     (if issue.severity i = ''high'' then score - 10
      else if issue.severity i = ''medium'' then score - 5
      else if issue.severity i = ''low'' then score - 2
      else score))"

definition AICodeReviewer_calculateScore :: "reviewResults \<Rightarrow> reviewResults" where
  "AICodeReviewer_calculateScore r =
     (let score = foldl deductIssue 100 (reviewResults.issues r);
          score = score + min (int (length (positives r)) * 2) 20
      in r\<lparr>reviewResults.score := max 0 (min 100 score)\<rparr>)"

subsection \<open>\<open>scripts/code-style-review.js\<close>: \<open>CodeStyleReviewer\<close>\<close>

record violation =
  category :: string
  severity :: string
  message :: string
  autoFixable :: bool
  line :: nat
  code :: string

record styleSuggestion =
  type :: string
  message :: string

text \<open>
  \<open>results.metrics\<close> is the empty object \<open>{}\<close> from the constructor until
  \<open>calculateOverallMetrics\<close> (called from \<open>generateReport\<close>, after the score is computed)
  replaces it by an object with the keys \<open>totalLines\<close>, \<open>totalFunctions\<close>, \<open>totalConst\<close>,
  \<open>totalLet\<close>, \<open>totalVar\<close>, \<open>totalArrowFunctions\<close> and \<open>modernizationScore\<close>. It is a map
  from key to count; a missing key reads as \<open>undefined\<close>, which \<open>|| 0\<close> turns into 0.
\<close>

record styleResults =
  score :: int
  violations :: "violation list"
  suggestions :: "styleSuggestion list"
  metrics :: "string \<rightharpoonup> nat"

definition orZero :: "nat option \<Rightarrow> nat" where
  "orZero v = (case v of None \<Rightarrow> 0 | Some n \<Rightarrow> (if n = 0 then 0 else n))"

text \<open>
  \<open>Math.floor(modernizationRatio * 10)\<close>. The counts are natural numbers, so the divisor is
  at least 1; the quotient is taken exactly (the source computes it in double precision).
\<close>

definition calculateModernizationBonus :: "styleResults \<Rightarrow> int" where
  "calculateModernizationBonus r =
     (let totalConst = orZero (metrics r ''const'');
          totalLet = orZero (metrics r ''let'');
          totalVar = orZero (metrics r ''var'');
          totalFunctions = orZero (metrics r ''functions'');
          totalArrowFunctions = orZero (metrics r ''arrowFunctions'');
          modernizationRatio =
            (real (totalConst + totalLet + totalArrowFunctions)) /
            (real (totalConst + totalLet + totalVar + totalFunctions + 1))
      in \<lfloor>modernizationRatio * 10\<rfloor>)"

definition deductViolation :: "int \<Rightarrow> violation \<Rightarrow> int" where
  "deductViolation = (\<lambda>score v.
     (if violation.severity v = ''high'' then score - 10
      else if violation.severity v = ''medium'' then score - 5
      else if violation.severity v = ''low'' then score - 2
      else score))"

definition CodeStyleReviewer_calculateScore :: "styleResults \<Rightarrow> styleResults" where
  "CodeStyleReviewer_calculateScore r =
     (let score = foldl deductViolation 100 (violations r);
          modernFiles = calculateModernizationBonus r;
          score = score + min (modernFiles * 5) 20
      in r\<lparr>styleResults.score := max 0 (min 100 score)\<rparr>)"

subsection \<open>\<open>PerformanceAnalyzer\<close>\<close>

record perfIssue =
  severity :: string
  message :: string
  line :: nat
  code :: string

record optimization =
  type :: string
  message :: string

text \<open>
  \<open>results\<close> of the constructor; its fields \<open>metrics\<close> and \<open>summary\<close> are read by the
  report writer only.
\<close>

record perfResults =
  score :: int
  issues :: "perfIssue list"
  optimizations :: "optimization list"

definition deductPerfIssue :: "int \<Rightarrow> perfIssue \<Rightarrow> int" where
  "deductPerfIssue = (\<lambda>score i.
     (if perfIssue.severity i = ''critical'' then score - 15
      else if perfIssue.severity i = ''high'' then score - 8
      else if perfIssue.severity i = ''medium'' then score - 3
      else score))"

definition PerformanceAnalyzer_calculateScore :: "perfResults \<Rightarrow> perfResults" where
  "PerformanceAnalyzer_calculateScore r =
     (let score = foldl deductPerfIssue 100 (perfResults.issues r);
          score = score + min (int (length (optimizations r)) * 2) 15
      in r\<lparr>perfResults.score := max 0 (min 100 score)\<rparr>)"

section \<open>\<open>MergeReadinessAssessor\<close>\<close>

subsection \<open>The upstream reports\<close>

text \<open>
  The assessor reads four JSON files written by the sibling scripts. File access and
  \<open>JSON.parse\<close> belong to the runtime; what the \<open>read*\<close> helpers see of a file is one of
  three things: the file does not exist (\<open>fs.existsSync\<close> is false), reading or parsing it
  throws (which the helper's \<open>try\<close>/\<open>catch\<close> swallows, as it does the property access on a
  document that is \<open>null\<close>), or it parses to a document. A document is typed by the schema
  the helper expects: numbers are JSON numbers (finite, so a \<open>real\<close>), an absent key is
  \<open>None\<close>, and an array is represented by its \<open>length\<close>, the only thing the assessor reads
  of it.
\<close>

datatype 'r jsonFile = Absent | Unreadable | Parsed 'r

text \<open>
  What \<open>new Date(report.timestamp).getTime()\<close> makes of the \<open>timestamp\<close> key: the key is
  missing or \<open>null\<close>, or it holds something that is not a date (\<open>NaN\<close>), or a date, in
  milliseconds.
\<close>

datatype timestamp = NoTimestamp | InvalidDate | Millis int

record testSummary =
  successRate :: "real option"
  overallCoverage :: "real option"
  failedTests :: "real option"
  skippedTests :: "real option"

record testReport =
  summary :: "testSummary option"
  timestamp :: timestamp

record severityArrays =
  critical :: "nat option"
  high :: "nat option"
  medium :: "nat option"

record styleReport =
  violationsBySeverity :: "severityArrays option"
  score :: "real option"

record securityReport =
  vulnerabilitiesBySeverity :: "severityArrays option"
  score :: "real option"

record perfReport =
  issuesBySeverity :: "severityArrays option"
  score :: "real option"

text \<open>
  The environment of one run: the four files, the clock (\<open>Date.now()\<close>, in milliseconds)
  and whether \<open>fs.writeFileSync\<close> of the result file succeeds.
\<close>

record env =
  testAnalysisReport :: "testReport jsonFile"
  codeStyleReviewResults :: "styleReport jsonFile"
  securityScanResults :: "securityReport jsonFile"
  performanceAnalysisResults :: "perfReport jsonFile"
  now :: int
  writable :: bool

text \<open>\<open>x || 0\<close> on an optional number: \<open>undefined\<close> and \<open>0\<close> are falsy.\<close>

definition orElse0 :: "real option \<Rightarrow> real" where
  "orElse0 v = (case v of None \<Rightarrow> 0 | Some x \<Rightarrow> (if x = 0 then 0 else x))"

text \<open>\<open>o?.k?.length || 0\<close>.\<close>

definition lengthOr0 :: "nat option \<Rightarrow> real" where
  "lengthOr0 v = (case v of None \<Rightarrow> 0 | Some n \<Rightarrow> (if n = 0 then 0 else real n))"

subsection \<open>The \<open>read*\<close> helpers\<close>

record testResults =
  successRate :: real
  coverage :: real
  failedTests :: real
  skippedTests :: real
  lastRun :: timestamp

record codeQualityResults =
  criticalIssues :: real
  highIssues :: real
  styleScore :: real
  lintErrors :: real

record securityResults =
  criticalVulnerabilities :: real
  highVulnerabilities :: real
  securityScore :: real
  dependencyIssues :: real

record performanceResults =
  criticalIssues :: real
  performanceScore :: real
  regressions :: real

record documentationResults =
  readmeUpdated :: bool
  apiDocsUpdated :: bool
  changelogUpdated :: bool
  breakingChanges :: real

record approvalStatus =
  hasRequiredApprovals :: bool
  currentApprovals :: real
  requiredApprovals :: real
  requestedChanges :: real
  unresolvedDiscussions :: real
  ciStatus :: string

definition readTestResults :: "env \<Rightarrow> testResults" where
  "readTestResults e =
     (case testAnalysisReport e of
        Parsed report \<Rightarrow>
          \<lparr>successRate = orElse0 (Option.bind (summary report) testSummary.successRate),
           coverage = orElse0 (Option.bind (summary report) overallCoverage),
           failedTests = orElse0 (Option.bind (summary report) testSummary.failedTests),
           skippedTests = orElse0 (Option.bind (summary report) testSummary.skippedTests),
           lastRun = timestamp report\<rparr>
      | _ \<Rightarrow>
          \<lparr>successRate = 0, coverage = 0, failedTests = 0, skippedTests = 0,
           lastRun = NoTimestamp\<rparr>)"

definition readCodeQualityResults :: "env \<Rightarrow> codeQualityResults" where
  "readCodeQualityResults e =
     (case codeStyleReviewResults e of
        Parsed report \<Rightarrow>
          \<lparr>codeQualityResults.criticalIssues =
             lengthOr0 (Option.bind (violationsBySeverity report) high),
           highIssues = lengthOr0 (Option.bind (violationsBySeverity report) medium),
           styleScore = orElse0 (styleReport.score report),
           lintErrors = 0\<rparr>
      | _ \<Rightarrow> \<lparr>codeQualityResults.criticalIssues = 0, highIssues = 0, styleScore = 0,
           lintErrors = 0\<rparr>)"

definition readSecurityResults :: "env \<Rightarrow> securityResults" where
  "readSecurityResults e =
     (case securityScanResults e of
        Parsed report \<Rightarrow>
          \<lparr>criticalVulnerabilities =
             lengthOr0 (Option.bind (vulnerabilitiesBySeverity report) critical),
           highVulnerabilities = lengthOr0 (Option.bind (vulnerabilitiesBySeverity report) high),
           securityScore = orElse0 (securityReport.score report),
           dependencyIssues = 0\<rparr>
      | _ \<Rightarrow>
          \<lparr>criticalVulnerabilities = 0, highVulnerabilities = 0, securityScore = 0,
           dependencyIssues = 0\<rparr>)"

definition readPerformanceResults :: "env \<Rightarrow> performanceResults" where
  "readPerformanceResults e =
     (case performanceAnalysisResults e of
        Parsed report \<Rightarrow>
          \<lparr>criticalIssues = lengthOr0 (Option.bind (issuesBySeverity report) critical),
           performanceScore = orElse0 (perfReport.score report),
           regressions = 0\<rparr>
      | _ \<Rightarrow> \<lparr>criticalIssues = 0, performanceScore = 0, regressions = 0\<rparr>)"

definition readDocumentationResults :: documentationResults where
  "readDocumentationResults =
     \<lparr>readmeUpdated = True, apiDocsUpdated = True, changelogUpdated = False,
      breakingChanges = 0\<rparr>"

definition readApprovalStatus :: approvalStatus where
  "readApprovalStatus =
     \<lparr>hasRequiredApprovals = False, currentApprovals = 0, requiredApprovals = 2,
      requestedChanges = 0, unresolvedDiscussions = 0, ciStatus = ''passed''\<rparr>"

subsection \<open>The assessment and its checks\<close>

text \<open>
  The messages are template literals; a message is kept as its pieces, the literal text
  and the interpolated numbers, in order.
\<close>

datatype part = Txt string | Num real

text \<open>The objects pushed on \<open>assessment.blockers\<close> and \<open>assessment.warnings\<close>.\<close>

record blocker =
  type :: string
  message :: "part list"
  severity :: string

record testChecks =
  allTestsPassing :: bool
  sufficientCoverage :: bool
  noSkippedTests :: bool
  recentTests :: bool

record codeQualityChecks =
  noCriticalIssues :: bool
  noHighIssues :: bool
  acceptableStyleScore :: bool
  noLintErrors :: bool

record securityChecks =
  noCriticalVulns :: bool
  noHighVulns :: bool
  securityScore :: bool
  dependenciesSecure :: bool

record performanceChecks =
  noCriticalPerfIssues :: bool
  performanceScore :: bool
  noRegressions :: bool

record documentationChecks =
  readmeUpdated :: bool
  apiDocsUpdated :: bool
  changelogUpdated :: bool
  noBreakingChanges :: bool

record approvalChecks =
  hasRequiredApprovals :: bool
  noRequestedChanges :: bool
  discussionsResolved :: bool
  ciPassed :: bool

text \<open>\<open>assessment.checks\<close>: \<open>{}\<close> at construction, one key set by each check.\<close>

record checks =
  tests :: "testChecks option"
  codeQuality :: "codeQualityChecks option"
  security :: "securityChecks option"
  performance :: "performanceChecks option"
  documentation :: "documentationChecks option"
  approvals :: "approvalChecks option"

record assessment =
  ready :: bool
  score :: int
  blockers :: "blocker list"
  warnings :: "blocker list"
  checks :: checks

definition MergeReadinessAssessor_new :: assessment where
  "MergeReadinessAssessor_new =
     \<lparr>ready = False, score = 0, blockers = [], warnings = [],
      checks = \<lparr>tests = None, codeQuality = None, security = None, performance = None,
                documentation = None, approvals = None\<rparr>\<rparr>"

definition push :: "'a list \<Rightarrow> 'a \<Rightarrow> 'a list" where
  "push xs x = xs @ [x]"

text \<open>
  \<open>recentTests\<close> is \<open>lastRun && (Date.now() - new Date(lastRun).getTime()) < 86400000\<close>; the
  model keeps its truth value (a missing \<open>lastRun\<close> is falsy, a comparison with \<open>NaN\<close> is
  false).
\<close>

definition checkTestResults :: "env \<Rightarrow> assessment \<Rightarrow> assessment" where
  "checkTestResults e a =
     (let testResults = readTestResults e;
          checks =
            \<lparr>allTestsPassing = (testResults.successRate testResults = 100),
             sufficientCoverage = (coverage testResults \<ge> 80),
             noSkippedTests = (testResults.skippedTests testResults = 0),
             recentTests =
               (case lastRun testResults of
                  NoTimestamp \<Rightarrow> False
                | InvalidDate \<Rightarrow> False
                | Millis t \<Rightarrow> now e - t < 24 * 60 * 60 * 1000)\<rparr>;
          a = (if \<not> allTestsPassing checks
               then a\<lparr>blockers := push (blockers a)
                      \<lparr>type = ''test-failure'',
                       message = [Txt ''Tests are failing ('',
                                  Num (testResults.failedTests testResults), Txt '' failed)''],
                       severity = ''critical''\<rparr>\<rparr>
               else a);
          a = (if \<not> sufficientCoverage checks
               then a\<lparr>blockers := push (blockers a)
                      \<lparr>type = ''coverage'',
                       message = [Txt ''Insufficient test coverage ('',
                                  Num (coverage testResults), Txt ''%)''],
                       severity = ''high''\<rparr>\<rparr>
               else a);
          a = (if testResults.skippedTests testResults > 0
               then a\<lparr>warnings := push (warnings a)
                      \<lparr>type = ''skipped-tests'',
                       message = [Num (testResults.skippedTests testResults),
                                  Txt '' tests are skipped''],
                       severity = ''low''\<rparr>\<rparr>
               else a)
      in a\<lparr>assessment.checks := (assessment.checks a)\<lparr>tests := Some checks\<rparr>\<rparr>)"

definition checkCodeQuality :: "env \<Rightarrow> assessment \<Rightarrow> assessment" where
  "checkCodeQuality e a =
     (let codeQuality = readCodeQualityResults e;
          checks =
            \<lparr>noCriticalIssues = (codeQualityResults.criticalIssues codeQuality = 0),
             noHighIssues = (highIssues codeQuality = 0),
             acceptableStyleScore = (styleScore codeQuality \<ge> 70),
             noLintErrors = (lintErrors codeQuality = 0)\<rparr>;
          a = (if \<not> noCriticalIssues checks
               then a\<lparr>blockers := push (blockers a)
                      \<lparr>type = ''critical-issues'',
                       message = [Num (codeQualityResults.criticalIssues codeQuality),
                                  Txt '' critical code quality issues''],
                       severity = ''critical''\<rparr>\<rparr>
               else a);
          a = (if \<not> noHighIssues checks
               then a\<lparr>blockers := push (blockers a)
                      \<lparr>type = ''high-issues'',
                       message = [Num (highIssues codeQuality),
                                  Txt '' high-priority code quality issues''],
                       severity = ''high''\<rparr>\<rparr>
               else a);
          a = (if \<not> acceptableStyleScore checks
               then a\<lparr>warnings := push (warnings a)
                      \<lparr>type = ''style-score'',
                       message = [Txt ''Code style score is '', Num (styleScore codeQuality),
                                  Txt ''/100''],
                       severity = ''medium''\<rparr>\<rparr>
               else a)
      in a\<lparr>assessment.checks := (assessment.checks a)\<lparr>codeQuality := Some checks\<rparr>\<rparr>)"

definition checkSecurity :: "env \<Rightarrow> assessment \<Rightarrow> assessment" where
  "checkSecurity e a =
     (let security = readSecurityResults e;
          checks =
            \<lparr>noCriticalVulns = (criticalVulnerabilities security = 0),
             noHighVulns = (highVulnerabilities security = 0),
             securityScore = (securityResults.securityScore security \<ge> 80),
             dependenciesSecure = (dependencyIssues security = 0)\<rparr>;
          a = (if \<not> noCriticalVulns checks
               then a\<lparr>blockers := push (blockers a)
                      \<lparr>type = ''security-critical'',
                       message = [Num (criticalVulnerabilities security),
                                  Txt '' critical security vulnerabilities''],
                       severity = ''critical''\<rparr>\<rparr>
               else a);
          a = (if \<not> noHighVulns checks
               then a\<lparr>blockers := push (blockers a)
                      \<lparr>type = ''security-high'',
                       message = [Num (highVulnerabilities security),
                                  Txt '' high-priority security vulnerabilities''],
                       severity = ''high''\<rparr>\<rparr>
               else a);
          a = (if \<not> securityChecks.securityScore checks
               then a\<lparr>warnings := push (warnings a)
                      \<lparr>type = ''security-score'',
                       message = [Txt ''Security score is '',
                                  Num (securityResults.securityScore security), Txt ''/100''],
                       severity = ''high''\<rparr>\<rparr>
               else a)
      in a\<lparr>assessment.checks := (assessment.checks a)\<lparr>security := Some checks\<rparr>\<rparr>)"

definition checkPerformance :: "env \<Rightarrow> assessment \<Rightarrow> assessment" where
  "checkPerformance e a =
     (let performance = readPerformanceResults e;
          checks =
            \<lparr>noCriticalPerfIssues = (performanceResults.criticalIssues performance = 0),
             performanceScore = (performanceResults.performanceScore performance \<ge> 70),
             noRegressions = (regressions performance = 0)\<rparr>;
          a = (if \<not> noCriticalPerfIssues checks
               then a\<lparr>blockers := push (blockers a)
                      \<lparr>type = ''performance-critical'',
                       message = [Num (performanceResults.criticalIssues performance),
                                  Txt '' critical performance issues''],
                       severity = ''high''\<rparr>\<rparr>
               else a);
          a = (if \<not> performanceChecks.performanceScore checks
               then a\<lparr>warnings := push (warnings a)
                      \<lparr>type = ''performance-score'',
                       message = [Txt ''Performance score is '',
                                  Num (performanceResults.performanceScore performance),
                                  Txt ''/100''],
                       severity = ''medium''\<rparr>\<rparr>
               else a)
      in a\<lparr>assessment.checks := (assessment.checks a)\<lparr>performance := Some checks\<rparr>\<rparr>)"

definition checkDocumentation :: "assessment \<Rightarrow> assessment" where
  "checkDocumentation a =
     (let documentation = readDocumentationResults;
          checks =
            \<lparr>readmeUpdated = documentationResults.readmeUpdated documentation,
             apiDocsUpdated = documentationResults.apiDocsUpdated documentation,
             changelogUpdated = documentationResults.changelogUpdated documentation,
             noBreakingChanges = (breakingChanges documentation = 0)\<rparr>;
          a = (if \<not> documentationChecks.readmeUpdated checks
               then a\<lparr>warnings := push (warnings a)
                      \<lparr>type = ''documentation'',
                       message = [Txt ''README may need updates for new features''],
                       severity = ''low''\<rparr>\<rparr>
               else a);
          a = (if breakingChanges documentation > 0
               then a\<lparr>blockers := push (blockers a)
                      \<lparr>type = ''breaking-changes'',
                       message = [Num (breakingChanges documentation),
                                  Txt '' breaking changes detected - requires additional review''],
                       severity = ''high''\<rparr>\<rparr>
               else a)
      in a\<lparr>assessment.checks := (assessment.checks a)\<lparr>documentation := Some checks\<rparr>\<rparr>)"

definition checkApprovals :: "assessment \<Rightarrow> assessment" where
  "checkApprovals a =
     (let approvals = readApprovalStatus;
          checks =
            \<lparr>hasRequiredApprovals = approvalStatus.hasRequiredApprovals approvals,
             noRequestedChanges = (requestedChanges approvals = 0),
             discussionsResolved = (unresolvedDiscussions approvals = 0),
             ciPassed = (ciStatus approvals = ''passed'')\<rparr>;
          a = (if \<not> approvalChecks.hasRequiredApprovals checks
               then a\<lparr>blockers := push (blockers a)
                      \<lparr>type = ''approvals'',
                       message = [Txt ''Insufficient approvals ('',
                                  Num (currentApprovals approvals), Txt ''/'',
                                  Num (requiredApprovals approvals), Txt '')''],
                       severity = ''high''\<rparr>\<rparr>
               else a);
          a = (if \<not> noRequestedChanges checks
               then a\<lparr>blockers := push (blockers a)
                      \<lparr>type = ''requested-changes'',
                       message = [Num (requestedChanges approvals),
                                  Txt '' requested changes need to be addressed''],
                       severity = ''critical''\<rparr>\<rparr>
               else a);
          a = (if \<not> ciPassed checks
               then a\<lparr>blockers := push (blockers a)
                      \<lparr>type = ''ci-failure'',
                       message = [Txt ''CI checks are failing''],
                       severity = ''critical''\<rparr>\<rparr>
               else a);
          a = (if \<not> discussionsResolved checks
               then a\<lparr>warnings := push (warnings a)
                      \<lparr>type = ''discussions'',
                       message = [Num (unresolvedDiscussions approvals),
                                  Txt '' unresolved discussions''],
                       severity = ''medium''\<rparr>\<rparr>
               else a)
      in a\<lparr>assessment.checks := (assessment.checks a)\<lparr>approvals := Some checks\<rparr>\<rparr>)"

definition runAllChecks :: "env \<Rightarrow> assessment \<Rightarrow> assessment" where
  "runAllChecks e a =
     (let a = checkTestResults e a;
          a = checkCodeQuality e a;
          a = checkSecurity e a;
          a = checkPerformance e a;
          a = checkDocumentation a
      in checkApprovals a)"

subsection \<open>\<open>calculateReadiness\<close>\<close>

definition deductBlocker :: "int \<Rightarrow> blocker \<Rightarrow> int" where
  "deductBlocker = (\<lambda>score blocker.
     (if severity blocker = ''critical'' then score - 30
      else if severity blocker = ''high'' then score - 20
      else if severity blocker = ''medium'' then score - 10
      else if severity blocker = ''low'' then score - 5
      else score))"

definition deductWarning :: "int \<Rightarrow> blocker \<Rightarrow> int" where
  "deductWarning = (\<lambda>score warning.
     (if severity warning = ''high'' then score - 5
      else if severity warning = ''medium'' then score - 3
      else if severity warning = ''low'' then score - 1
      else score))"

definition calculateReadiness :: "assessment \<Rightarrow> assessment" where
  "calculateReadiness a =
     (let score = foldl deductBlocker 100 (blockers a);
          score = foldl deductWarning score (warnings a);
          a = a\<lparr>assessment.score := max 0 score\<rparr>
      in a\<lparr>ready := (length (blockers a) = 0 \<and> assessment.score a \<ge> 80)\<rparr>)"

subsection \<open>\<open>generateReport\<close> and \<open>assess\<close>\<close>

text \<open>
  The three texts of \<open>getRecommendation\<close>: \<open>PR is not ready for merge. Address blockers and
  warnings.\<close>, \<open>PR is ready for merge but consider addressing warnings.\<close> and
  \<open>PR is ready for merge!\<close> (which ends in an emoji).
\<close>

datatype recommendation = NotReady | ReadyWithWarnings | ReadyForMerge

definition getRecommendation :: "assessment \<Rightarrow> recommendation" where
  "getRecommendation a =
     (if \<not> ready a then NotReady
      else if length (warnings a) > 0 then ReadyWithWarnings
      else ReadyForMerge)"

record reportSummary =
  totalBlockers :: nat
  totalWarnings :: nat
  criticalBlockers :: nat
  recommendation :: recommendation

text \<open>The document written to \<open>merge-readiness-results.json\<close>; its timestamp is the clock.\<close>

record report =
  timestamp :: int
  ready :: bool
  score :: int
  blockers :: "blocker list"
  warnings :: "blocker list"
  checks :: checks
  summary :: reportSummary

datatype error = WriteFailed

text \<open>
  \<open>generateReport\<close> returns the document it wrote, or the exception of
  \<open>fs.writeFileSync\<close>; \<open>assess\<close> logs an exception and throws it again.
\<close>

definition generateReport :: "env \<Rightarrow> assessment \<Rightarrow> error + report" where
  "generateReport e a =
     (let report =
            \<lparr>timestamp = now e,
             ready = assessment.ready a,
             score = assessment.score a,
             blockers = assessment.blockers a,
             warnings = assessment.warnings a,
             checks = assessment.checks a,
             summary =
               \<lparr>totalBlockers = length (assessment.blockers a),
                totalWarnings = length (assessment.warnings a),
                criticalBlockers =
                  length (filter (\<lambda>b. severity b = ''critical'') (assessment.blockers a)),
                recommendation = getRecommendation a\<rparr>\<rparr>
      in if writable e then Inr report else Inl WriteFailed)"

definition assess :: "env \<Rightarrow> assessment \<Rightarrow> error + assessment" where
  "assess e a =
     (let a = runAllChecks e a;
          a = calculateReadiness a
      in case generateReport e a of
           Inl err \<Rightarrow> Inl err
         | Inr report \<Rightarrow> Inr a)"

section \<open>The pattern scanner of \<open>scripts/ai-code-review.js\<close>\<close>

subsection \<open>Regular expressions\<close>

text \<open>
  The regular-expression engine belongs to the runtime. A \<open>RegExp\<close> object is represented
  by the text \<open>toString()\<close> gives and by its matcher: given the input and a start index,
  the matcher fails or returns the length of the match that starts at that index (the match
  the engine's backtracking finds first).
\<close>

type_synonym matcher = "string \<Rightarrow> nat \<Rightarrow> nat option"

record regexp =
  source :: string
  matcher :: matcher

text \<open>
  The patterns of the scripts modelled here are sequences of single-character terms, each
  optionally under a greedy \<open>*\<close> or \<open>+\<close>, between optional \<open>^\<close> and \<open>$\<close> (without the \<open>m\<close>
  flag: start and end of the input). \<open>matchHere atoms i s\<close> matches such a sequence against
  \<open>s\<close>, the input from index \<open>i\<close> on, and tries the longer repetition first, as the engine
  does.
\<close>

datatype atom =
    AssertStart
  | AssertEnd
  | One "char \<Rightarrow> bool"
  | Many0 "char \<Rightarrow> bool"
  | Many1 "char \<Rightarrow> bool"

fun matchHere :: "atom list \<Rightarrow> nat \<Rightarrow> string \<Rightarrow> nat option" where
  "matchHere [] i s = Some 0"
| "matchHere (AssertStart # as) i s = (if i = 0 then matchHere as i s else None)"
| "matchHere (AssertEnd # as) i s = (if s = [] then matchHere as i s else None)"
| "matchHere (One p # as) i [] = None"
| "matchHere (One p # as) i (c # cs) =
     (if p c then map_option Suc (matchHere as (Suc i) cs) else None)"
| "matchHere (Many0 p # as) i [] = matchHere as i []"
| "matchHere (Many0 p # as) i (c # cs) =
     (if p c
      then (case matchHere (Many0 p # as) (Suc i) cs of
              Some l \<Rightarrow> Some (Suc l)
            | None \<Rightarrow> matchHere as i (c # cs))
      else matchHere as i (c # cs))"
| "matchHere (Many1 p # as) i [] = None"
| "matchHere (Many1 p # as) i (c # cs) =
     (if p c
      then (case matchHere (Many1 p # as) (Suc i) cs of
              Some l \<Rightarrow> Some (Suc l)
            | None \<Rightarrow> map_option Suc (matchHere as (Suc i) cs))
      else None)"

definition compile :: "atom list \<Rightarrow> matcher" where
  "compile atoms = (\<lambda>input i. matchHere atoms i (drop i input))"

definition lits :: "string \<Rightarrow> atom list" where
  "lits s = map (\<lambda>c. One ((=) c)) s"

text \<open>
  The character class \<open>\s\<close> on 8-bit characters: tab, line feed, vertical tab, form feed,
  carriage return, space and no-break space.
\<close>

definition isSpace :: "char \<Rightarrow> bool" where
  "isSpace c =
     (c \<in> set [CHR 0x09, CHR 0x0A, CHR 0x0B, CHR 0x0C, CHR 0x0D, CHR 0x20, CHR 0xA0])"

definition backslash :: char where
  "backslash = CHR 0x5C"

text \<open>
  The search of \<open>RegExp.prototype.exec\<close> from \<open>lastIndex = i\<close>: the first index from \<open>i\<close> on,
  up to the length of the input, at which the matcher succeeds, with the length of the
  match.
\<close>

function execFrom :: "matcher \<Rightarrow> string \<Rightarrow> nat \<Rightarrow> (nat \<times> nat) option" where
  "execFrom m s i =
     (if i > length s then None
      else (case m s i of
              Some l \<Rightarrow> Some (i, l)
            | None \<Rightarrow> execFrom m s (Suc i)))"
  by pat_completeness auto
termination
  by (relation "measure (\<lambda>(m, s, i). Suc (length s) - i)") auto

lemma execFrom_bounds: "execFrom m s i = Some (j, l) \<Longrightarrow> i \<le> j \<and> j \<le> length s"
proof (induction m s i rule: execFrom.induct)
  case (1 m s i)
  show ?case
  proof (cases "i > length s")
    case True
    with "1.prems" show ?thesis by simp
  next
    case False
    show ?thesis
    proof (cases "m s i")
      case None
      with False "1.prems" have "execFrom m s (Suc i) = Some (j, l)" by simp
      with "1.IH" False None show ?thesis by fastforce
    next
      case (Some k)
      with False "1.prems" show ?thesis by simp
    qed
  qed
qed

text \<open>
  \<open>content.match(new RegExp(pattern, 'g'))\<close>: the global loop of \<open>String.prototype.match\<close>.
  It starts at \<open>lastIndex = 0\<close> on a regular expression made for this one call, collects
  the matched text of one \<open>exec\<close> after the other, each starting where the previous match
  ended, and steps one index further after an empty match. \<open>occurrencesFrom\<close> keeps the
  start offset of each match beside its text; \<open>String_match\<close> is what the script sees, the
  texts alone, or \<open>null\<close> when there is none.
\<close>

function occurrencesFrom :: "matcher \<Rightarrow> string \<Rightarrow> nat \<Rightarrow> (nat \<times> string) list" where
  "occurrencesFrom m s i =
     (case execFrom m s i of
        None \<Rightarrow> []
      | Some (j, l) \<Rightarrow>
          (let matchStr = take l (drop j s);
               e = j + l
           in (j, matchStr) # occurrencesFrom m s (if matchStr = [] then Suc e else e)))"
  by pat_completeness auto
termination
proof (relation "measure (\<lambda>(m, s, i). Suc (length s) - i)", goal_cases)
  case 1
  show ?case by simp
next
  case (2 m s i x2 j l matchStr e)
  then have "execFrom m s i = Some (j, l)" by simp
  then have "i \<le> j \<and> j \<le> length s" by (rule execFrom_bounds)
  then show ?case using 2 by (auto split: if_splits)
qed

definition occurrences :: "regexp \<Rightarrow> string \<Rightarrow> (nat \<times> string) list" where
  "occurrences rx content = occurrencesFrom (matcher rx) content 0"

definition String_match :: "string \<Rightarrow> regexp \<Rightarrow> string list option" where
  "String_match content rx =
     (case map snd (occurrences rx content) of
        [] \<Rightarrow> None
      | ms \<Rightarrow> Some ms)"

subsection \<open>String functions\<close>

text \<open>\<open>s.indexOf(m)\<close>: the first index at which \<open>m\<close> occurs in \<open>s\<close>, or \<open>-1\<close>.\<close>

fun indexOf :: "string \<Rightarrow> string \<Rightarrow> int" where
  "indexOf [] m = (if m = [] then 0 else - 1)"
| "indexOf (c # cs) m =
     (if take (length m) (c # cs) = m then 0
      else (let k = indexOf cs m in if k < 0 then - 1 else k + 1))"

text \<open>\<open>s.substring(0, k)\<close>: a negative \<open>k\<close> counts as 0, one past the end as the length.\<close>

definition substring0 :: "string \<Rightarrow> int \<Rightarrow> string" where
  "substring0 s k = take (nat (max 0 k)) s"

text \<open>\<open>s.split(sep)\<close> for a separator of one character.\<close>

fun splitOn :: "char \<Rightarrow> string \<Rightarrow> string list" where
  "splitOn sep [] = [[]]"
| "splitOn sep (c # cs) =
     (if c = sep then [] # splitOn sep cs
      else (case splitOn sep cs of
              [] \<Rightarrow> [[c]]
            | w # ws \<Rightarrow> (c # w) # ws))"

definition newline :: char where
  "newline = CHR 0x0A"

subsection \<open>\<open>checkPatterns\<close>\<close>

record rule =
  pattern :: regexp
  severity :: string
  message :: string

text \<open>
  The inner loop of \<open>checkPatterns\<close>, one round per element of \<open>matches\<close>: the line number
  is taken from \<open>content.indexOf(matches[i])\<close>.
\<close>

definition pushIssue :: "string \<Rightarrow> rule \<Rightarrow> issue list \<Rightarrow> string \<Rightarrow> issue list" where
  "pushIssue content r = (\<lambda>issues m.
     (let beforeMatch = substring0 content (indexOf content m);
          lineNumber = length (splitOn newline beforeMatch)
      in push issues
           \<lparr>issue.severity = rule.severity r,
            message = rule.message r,
            line = lineNumber,
            pattern = source (rule.pattern r)\<rparr>))"

definition checkPatterns :: "string \<Rightarrow> rule list \<Rightarrow> issue list \<Rightarrow> issue list" where
  "checkPatterns content patterns = (\<lambda>issues.
     foldl (\<lambda>issues r.
              (case String_match content (rule.pattern r) of
                 None \<Rightarrow> issues
               | Some matches \<Rightarrow> foldl (pushIssue content r) issues matches))
           issues patterns)"

text \<open>
  The first rule table of the constructor, \<open>this.patterns.securityIssues\<close>, which
  \<open>analyzeFile\<close> scans first, into the empty \<open>fileAnalysis.issues\<close>.
\<close>

definition securityIssues :: "rule list" where
  "securityIssues =
     [\<lparr>pattern =
         \<lparr>source = ''/eval'' @ [backslash] @ ''s*'' @ [backslash] @ ''(/'',
          matcher = compile (lits ''eval'' @ [Many0 isSpace, One ((=) CHR ''('')])\<rparr>,
       severity = ''high'',
       message = ''Use of eval() detected - potential security risk''\<rparr>,
      \<lparr>pattern =
         \<lparr>source = ''/innerHTML'' @ [backslash] @ ''s*=/'',
          matcher = compile (lits ''innerHTML'' @ [Many0 isSpace, One ((=) CHR ''='')])\<rparr>,
       severity = ''medium'',
       message = ''innerHTML assignment detected - potential XSS vulnerability''\<rparr>,
      \<lparr>pattern =
         \<lparr>source = ''/document'' @ [backslash] @ ''.write'' @ [backslash] @ ''s*'' @
                   [backslash] @ ''(/'',
          matcher =
            compile (lits ''document.write'' @ [Many0 isSpace, One ((=) CHR ''('')])\<rparr>,
       severity = ''medium'',
       message = ''document.write() detected - potential security issue''\<rparr>,
      \<lparr>pattern =
         \<lparr>source = ''/Math'' @ [backslash] @ ''.random'' @ [backslash] @ ''('' @
                   [backslash] @ '')/'',
          matcher = compile (lits ''Math.random()'')\<rparr>,
       severity = ''low'',
       message = ''Math.random() detected - not cryptographically secure''\<rparr>]"

section \<open>The sample utilities\<close>

subsection \<open>\<open>validateEmail\<close>\<close>

text \<open>\<open>rx.test(s)\<close> for a regular expression without the \<open>g\<close> flag: the search starts at 0.\<close>

definition RegExp_test :: "regexp \<Rightarrow> string \<Rightarrow> bool" where
  "RegExp_test rx s = (execFrom (matcher rx) s 0 \<noteq> None)"

definition notSpaceOrAt :: "char \<Rightarrow> bool" where
  "notSpaceOrAt c = (\<not> (isSpace c \<or> c = CHR ''@''))"

definition emailRegex :: regexp where
  "emailRegex =
     \<lparr>source = ''/^[^'' @ [backslash] @ ''s@]+@[^'' @ [backslash] @ ''s@]+'' @ [backslash] @
               ''.[^'' @ [backslash] @ ''s@]+$/'',
      matcher = compile
        [AssertStart, Many1 notSpaceOrAt, One ((=) CHR ''@''), Many1 notSpaceOrAt,
         One ((=) CHR ''.''), Many1 notSpaceOrAt, AssertEnd]\<rparr>"

definition validateEmail :: "string \<Rightarrow> bool" where
  "validateEmail email = RegExp_test emailRegex email"

subsection \<open>\<open>Calculator\<close>\<close>

text \<open>
  The arguments are JavaScript numbers; the model takes integers, on which \<open>+\<close> and \<open>-\<close> are
  exact. Each method returns its result and the object after the call.
\<close>

record historyEntry =
  operation :: string
  arg_a :: int
  arg_b :: int
  result :: int

record calculator =
  history :: "historyEntry list"

definition Calculator_new :: calculator where
  "Calculator_new = \<lparr>history = []\<rparr>"

definition Calculator_add :: "int \<Rightarrow> int \<Rightarrow> calculator \<Rightarrow> int \<times> calculator" where
  "Calculator_add a b this =
     (let result = a + b
      in (result,
          this\<lparr>history := push (history this)
                 \<lparr>operation = ''add'', arg_a = a, arg_b = b, result = result\<rparr>\<rparr>))"

definition Calculator_subtract :: "int \<Rightarrow> int \<Rightarrow> calculator \<Rightarrow> int \<times> calculator" where
  "Calculator_subtract a b this =
     (let result = a - b
      in (result,
          this\<lparr>history := push (history this)
                 \<lparr>operation = ''subtract'', arg_a = a, arg_b = b, result = result\<rparr>\<rparr>))"

definition getHistory :: "calculator \<Rightarrow> historyEntry list" where
  "getHistory this = history this"

definition clearHistory :: "calculator \<Rightarrow> calculator" where
  "clearHistory this = this\<lparr>history := []\<rparr>"

section \<open>Example inputs\<close>

text \<open>An assessment whose only finding is one critical blocker.\<close>

definition criticalOnly :: assessment where
  "criticalOnly =
     MergeReadinessAssessor_new
       \<lparr>assessment.blockers :=
          [\<lparr>type = ''ci-failure'', message = [Txt ''CI checks are failing''],
            severity = ''critical''\<rparr>]\<rparr>"

text \<open>A working directory without any upstream report, in which the result can be written.\<close>

definition noReports :: env where
  "noReports =
     \<lparr>testAnalysisReport = Absent, codeStyleReviewResults = Absent,
      securityScanResults = Absent, performanceAnalysisResults = Absent,
      now = 0, writable = True\<rparr>"

text \<open>A file of two lines, each a call of \<open>Math.random()\<close>.\<close>

definition twoRandoms :: string where
  "twoRandoms = ''Math.random()\<newline>Math.random()''"

text \<open>
  Two states of the style reviewer that hold the same violation and the same (empty)
  metrics, and differ in the score and the suggestions left in them.
\<close>

definition tabViolation :: violation where
  "tabViolation =
     \<lparr>category = ''formatting'', severity = ''medium'',
      message = ''Use spaces instead of tabs for indentation'', autoFixable = True,
      line = 1, code = []\<rparr>"

definition styleFresh :: styleResults where
  "styleFresh =
     \<lparr>styleResults.score = 0, violations = [tabViolation], suggestions = [],
      metrics = Map.empty\<rparr>"

definition styleScored :: styleResults where
  "styleScored =
     \<lparr>styleResults.score = 95, violations = [tabViolation],
      suggestions = [\<lparr>styleSuggestion.type = ''modernization'',
                      message = ''Consider using arrow functions instead of .bind()''\<rparr>],
      metrics = Map.empty\<rparr>"

section \<open>Properties of the aggregators\<close>

lemma deductBlocker_le: "deductBlocker s b \<le> s"
  by (simp add: deductBlocker_def)

lemma foldl_deductBlocker_le: "foldl deductBlocker s bs \<le> s"
proof (induction bs arbitrary: s)
  case Nil
  show ?case by simp
next
  case (Cons b bs)
  from Cons.IH [of "deductBlocker s b"] deductBlocker_le [of s b]
  show ?case by simp
qed

lemma foldl_deductWarning_le: "foldl deductWarning s ws \<le> s"
proof (induction ws arbitrary: s)
  case Nil
  show ?case by simp
next
  case (Cons w ws)
  have "foldl deductWarning (deductWarning s w) ws \<le> deductWarning s w" by (rule Cons.IH)
  also have "deductWarning s w \<le> s" by (simp add: deductWarning_def)
  finally show ?case by simp
qed

text \<open>
  In the states the style reviewer reaches, \<open>results.metrics\<close> has none of the keys that
  \<open>calculateModernizationBonus\<close> reads, and the bonus is 0.
\<close>

lemma calculateModernizationBonus_no_keys:
  "metrics r ''const'' = None \<Longrightarrow> metrics r ''let'' = None \<Longrightarrow>
   metrics r ''arrowFunctions'' = None \<Longrightarrow> calculateModernizationBonus r = 0"
  by (simp add: calculateModernizationBonus_def orZero_def Let_def)

lemma calculateReadiness_score:
  "assessment.score (calculateReadiness a) =
     max 0 (foldl deductWarning (foldl deductBlocker 100 (assessment.blockers a))
              (assessment.warnings a))"
  by (simp add: calculateReadiness_def Let_def)

lemma calculateReadiness_blockers:
  "assessment.blockers (calculateReadiness a) = assessment.blockers a"
  by (simp add: calculateReadiness_def Let_def)

lemma calculateReadiness_ready:
  "assessment.ready (calculateReadiness a) =
     (assessment.blockers a = [] \<and> 80 \<le> assessment.score (calculateReadiness a))"
  by (simp add: calculateReadiness_def Let_def)

text \<open>
  C1. After \<open>calculateReadiness\<close> the \<open>ready\<close> flag of the assessment is true exactly when
  its list of blockers is empty and its score is at least 80. In particular an assessment
  whose blockers contain a blocker of severity \<open>critical\<close> is not ready, whatever its score.
\<close>

theorem readiness_iff_no_blockers_and_score:
  "assessment.ready (calculateReadiness a) =
     (assessment.blockers (calculateReadiness a) = [] \<and>
      80 \<le> assessment.score (calculateReadiness a)) \<and>
   ((\<exists>b \<in> set (assessment.blockers a). blocker.severity b = ''critical'') \<longrightarrow>
      \<not> assessment.ready (calculateReadiness a))"
proof (intro conjI impI)
  show "assessment.ready (calculateReadiness a) =
     (assessment.blockers (calculateReadiness a) = [] \<and>
      80 \<le> assessment.score (calculateReadiness a))"
    by (simp add: calculateReadiness_ready calculateReadiness_blockers)
next
  assume "\<exists>b \<in> set (assessment.blockers a). blocker.severity b = ''critical''"
  then have "assessment.blockers a \<noteq> []" by auto
  then show "\<not> assessment.ready (calculateReadiness a)"
    by (simp add: calculateReadiness_ready)
qed

theorem readiness_iff_no_blockers_and_score_witness:
  "(\<exists>b \<in> set (assessment.blockers criticalOnly). blocker.severity b = ''critical'') \<and>
   \<not> assessment.ready (calculateReadiness criticalOnly)"
proof -
  have h: "\<exists>b \<in> set (assessment.blockers criticalOnly). blocker.severity b = ''critical''"
    by (simp add: criticalOnly_def MergeReadinessAssessor_new_def)
  from readiness_iff_no_blockers_and_score [of criticalOnly]
  have "(\<exists>b \<in> set (assessment.blockers criticalOnly). blocker.severity b = ''critical'') \<longrightarrow>
      \<not> assessment.ready (calculateReadiness criticalOnly)"
    by (rule conjunct2)
  with h have "\<not> assessment.ready (calculateReadiness criticalOnly)" by (rule rev_mp)
  with h show ?thesis by (rule conjI)
qed

text \<open>
  C2. Whatever findings of whatever severities and however many positives or optimizations
  have been collected, the score stored by \<open>calculateScore\<close> of the code review, of the
  style review and of the performance analysis, and by \<open>calculateReadiness\<close>, is an integer
  between 0 and 100 inclusive.
\<close>

theorem score_within_bounds:
  "0 \<le> reviewResults.score (AICodeReviewer_calculateScore r1) \<and>
   reviewResults.score (AICodeReviewer_calculateScore r1) \<le> 100 \<and>
   0 \<le> styleResults.score (CodeStyleReviewer_calculateScore r2) \<and>
   styleResults.score (CodeStyleReviewer_calculateScore r2) \<le> 100 \<and>
   0 \<le> perfResults.score (PerformanceAnalyzer_calculateScore r3) \<and>
   perfResults.score (PerformanceAnalyzer_calculateScore r3) \<le> 100 \<and>
   0 \<le> assessment.score (calculateReadiness a) \<and>
   assessment.score (calculateReadiness a) \<le> 100"
proof -
  have review: "0 \<le> reviewResults.score (AICodeReviewer_calculateScore r1) \<and>
      reviewResults.score (AICodeReviewer_calculateScore r1) \<le> 100"
    by (simp add: AICodeReviewer_calculateScore_def Let_def)
  have style: "0 \<le> styleResults.score (CodeStyleReviewer_calculateScore r2) \<and>
      styleResults.score (CodeStyleReviewer_calculateScore r2) \<le> 100"
    by (simp add: CodeStyleReviewer_calculateScore_def Let_def)
  have perf: "0 \<le> perfResults.score (PerformanceAnalyzer_calculateScore r3) \<and>
      perfResults.score (PerformanceAnalyzer_calculateScore r3) \<le> 100"
    by (simp add: PerformanceAnalyzer_calculateScore_def Let_def)
  have "foldl deductWarning (foldl deductBlocker 100 (assessment.blockers a))
          (assessment.warnings a)
          \<le> foldl deductBlocker 100 (assessment.blockers a)"
    by (rule foldl_deductWarning_le)
  also have "\<dots> \<le> 100" by (rule foldl_deductBlocker_le)
  finally have "assessment.score (calculateReadiness a) \<le> 100"
    by (simp add: calculateReadiness_score)
  moreover have "0 \<le> assessment.score (calculateReadiness a)"
    by (simp add: calculateReadiness_score)
  ultimately show ?thesis using review style perf by simp
qed

text \<open>
  C5. When exactly one finding of severity \<open>critical\<close> has been collected and nothing else
  (no other finding, no optimization, positive or warning), the score is 100 minus what the
  script deducts for \<open>critical\<close>: 100 - 15 = 85 in the performance analysis and 100 - 30 = 70
  in the merge-readiness assessment. The \<open>switch\<close> of the code review has no case for
  \<open>critical\<close>, so it deducts nothing and the score stays 100.
\<close>

theorem single_critical_match_score:
  "perfResults.score
     (PerformanceAnalyzer_calculateScore
        (r\<lparr>perfResults.issues := [i\<lparr>perfIssue.severity := ''critical''\<rparr>],
           optimizations := []\<rparr>)) = 100 - 15 \<and>
   assessment.score
     (calculateReadiness
        (a\<lparr>assessment.blockers := [b\<lparr>blocker.severity := ''critical''\<rparr>],
           assessment.warnings := []\<rparr>)) = 100 - 30 \<and>
   reviewResults.score
     (AICodeReviewer_calculateScore
        (rr\<lparr>reviewResults.issues := [ri\<lparr>issue.severity := ''critical''\<rparr>],
            positives := []\<rparr>)) = 100 - 0"
  by (simp add: PerformanceAnalyzer_calculateScore_def deductPerfIssue_def
      calculateReadiness_def deductBlocker_def AICodeReviewer_calculateScore_def
      deductIssue_def Let_def)

text \<open>
  C6. In the code review, no issue and no positive give exactly the baseline score 100.
\<close>

theorem baseline_score:
  "reviewResults.score
     (AICodeReviewer_calculateScore (r\<lparr>reviewResults.issues := [], positives := []\<rparr>)) = 100"
  by (simp add: AICodeReviewer_calculateScore_def Let_def)

section \<open>Properties of the merge-readiness assessment\<close>

lemma checkApprovals_blockers:
  "assessment.blockers (checkApprovals a) =
     assessment.blockers a @
       [\<lparr>type = ''approvals'',
         message = [Txt ''Insufficient approvals ('', Num 0, Txt ''/'', Num 2, Txt '')''],
         severity = ''high''\<rparr>]"
  by (simp add: checkApprovals_def readApprovalStatus_def push_def Let_def)

lemma runAllChecks_blockers:
  "\<exists>bs. assessment.blockers (runAllChecks e a) =
     bs @ [\<lparr>type = ''approvals'',
         message = [Txt ''Insufficient approvals ('', Num 0, Txt ''/'', Num 2, Txt '')''],
         severity = ''high''\<rparr>]"
  by (simp add: runAllChecks_def Let_def checkApprovals_blockers)

lemma assess_returns:
  "writable e \<Longrightarrow> assess e a = Inr (calculateReadiness (runAllChecks e a))"
  by (simp add: assess_def generateReport_def Let_def)

lemma assess_Inr:
  "assess e a = Inr r \<Longrightarrow> r = calculateReadiness (runAllChecks e a)"
  by (cases "writable e") (simp_all add: assess_def generateReport_def Let_def)

text \<open>
  C10. No run of \<open>assess\<close> ends with a ready assessment: \<open>readApprovalStatus\<close> always
  returns \<open>hasRequiredApprovals: false\<close>, so \<open>checkApprovals\<close>, the last check, always pushes
  a blocker of type \<open>approvals\<close>; the list of blockers is therefore not empty when
  \<open>calculateReadiness\<close> runs, and \<open>ready\<close> is false, in the state of the assessor and in the
  assessment that \<open>assess\<close> returns. This holds for every environment and every state in
  which the run starts.
\<close>

theorem assess_never_ready:
  "\<not> approvalStatus.hasRequiredApprovals readApprovalStatus \<and>
   (\<exists>b \<in> set (assessment.blockers (runAllChecks e a)). blocker.type b = ''approvals'') \<and>
   \<not> assessment.ready (calculateReadiness (runAllChecks e a)) \<and>
   (\<forall>r. assess e a = Inr r \<longrightarrow> \<not> assessment.ready r)"
proof -
  have approvals: "\<not> approvalStatus.hasRequiredApprovals readApprovalStatus"
    by (simp add: readApprovalStatus_def)
  obtain bs where bs: "assessment.blockers (runAllChecks e a) =
     bs @ [\<lparr>type = ''approvals'',
         message = [Txt ''Insufficient approvals ('', Num 0, Txt ''/'', Num 2, Txt '')''],
         severity = ''high''\<rparr>]"
    using runAllChecks_blockers by blast
  then have pushed:
    "\<exists>b \<in> set (assessment.blockers (runAllChecks e a)). blocker.type b = ''approvals''"
    by simp
  from bs have "assessment.blockers (runAllChecks e a) \<noteq> []" by simp
  then have unready: "\<not> assessment.ready (calculateReadiness (runAllChecks e a))"
    by (simp add: calculateReadiness_ready)
  then have "\<forall>r. assess e a = Inr r \<longrightarrow> \<not> assessment.ready r"
    using assess_Inr by blast
  with approvals pushed unready show ?thesis by blast
qed

theorem assess_never_ready_witness:
  "\<exists>r. assess noReports MergeReadinessAssessor_new = Inr r \<and> \<not> assessment.ready r"
proof -
  have "writable noReports" by (simp add: noReports_def)
  then have ret: "assess noReports MergeReadinessAssessor_new =
      Inr (calculateReadiness (runAllChecks noReports MergeReadinessAssessor_new))"
    by (rule assess_returns)
  from assess_never_ready [of noReports MergeReadinessAssessor_new]
  have "\<forall>r. assess noReports MergeReadinessAssessor_new = Inr r \<longrightarrow> \<not> assessment.ready r"
    by blast
  with ret show ?thesis by blast
qed

text \<open>
  C4, as amended. When its report file is absent, each of the four helpers that read a file
  (\<open>readTestResults\<close>, \<open>readCodeQualityResults\<close>, \<open>readSecurityResults\<close>,
  \<open>readPerformanceResults\<close>) returns a record whose every field is 0 (\<open>lastRun\<close> is \<open>null\<close>).
  \<open>readDocumentationResults\<close> and \<open>readApprovalStatus\<close> read no file; they always return the
  same record, whose fields are zero or false except \<open>readmeUpdated\<close> and \<open>apiDocsUpdated\<close>
  (true), \<open>requiredApprovals\<close> (2) and \<open>ciStatus\<close> (\<open>'passed'\<close>). Whatever files are missing,
  the run returns an assessment whenever the result file can be written.
\<close>

theorem read_helpers_defaults:
  "(testAnalysisReport e = Absent \<longrightarrow>
      readTestResults e =
        \<lparr>successRate = 0, coverage = 0, failedTests = 0, skippedTests = 0,
         lastRun = NoTimestamp\<rparr>) \<and>
   (codeStyleReviewResults e = Absent \<longrightarrow>
      readCodeQualityResults e =
        \<lparr>codeQualityResults.criticalIssues = 0, highIssues = 0, styleScore = 0,
         lintErrors = 0\<rparr>) \<and>
   (securityScanResults e = Absent \<longrightarrow>
      readSecurityResults e =
        \<lparr>criticalVulnerabilities = 0, highVulnerabilities = 0,
         securityResults.securityScore = 0, dependencyIssues = 0\<rparr>) \<and>
   (performanceAnalysisResults e = Absent \<longrightarrow>
      readPerformanceResults e =
        \<lparr>performanceResults.criticalIssues = 0, performanceResults.performanceScore = 0,
         regressions = 0\<rparr>) \<and>
   readDocumentationResults =
     \<lparr>documentationResults.readmeUpdated = True, documentationResults.apiDocsUpdated = True,
      documentationResults.changelogUpdated = False, breakingChanges = 0\<rparr> \<and>
   readApprovalStatus =
     \<lparr>approvalStatus.hasRequiredApprovals = False, currentApprovals = 0,
      requiredApprovals = 2, requestedChanges = 0, unresolvedDiscussions = 0,
      ciStatus = ''passed''\<rparr> \<and>
   (writable e \<longrightarrow> (\<exists>r. assess e a = Inr r))"
proof (intro conjI impI)
  assume "testAnalysisReport e = Absent"
  then show "readTestResults e =
      \<lparr>successRate = 0, coverage = 0, failedTests = 0, skippedTests = 0,
       lastRun = NoTimestamp\<rparr>"
    by (simp add: readTestResults_def)
next
  assume "codeStyleReviewResults e = Absent"
  then show "readCodeQualityResults e =
      \<lparr>codeQualityResults.criticalIssues = 0, highIssues = 0, styleScore = 0,
       lintErrors = 0\<rparr>"
    by (simp add: readCodeQualityResults_def)
next
  assume "securityScanResults e = Absent"
  then show "readSecurityResults e =
      \<lparr>criticalVulnerabilities = 0, highVulnerabilities = 0,
       securityResults.securityScore = 0, dependencyIssues = 0\<rparr>"
    by (simp add: readSecurityResults_def)
next
  assume "performanceAnalysisResults e = Absent"
  then show "readPerformanceResults e =
      \<lparr>performanceResults.criticalIssues = 0, performanceResults.performanceScore = 0,
       regressions = 0\<rparr>"
    by (simp add: readPerformanceResults_def)
next
  show "readDocumentationResults =
     \<lparr>documentationResults.readmeUpdated = True, documentationResults.apiDocsUpdated = True,
      documentationResults.changelogUpdated = False, breakingChanges = 0\<rparr>"
    by (simp add: readDocumentationResults_def)
next
  show "readApprovalStatus =
     \<lparr>approvalStatus.hasRequiredApprovals = False, currentApprovals = 0,
      requiredApprovals = 2, requestedChanges = 0, unresolvedDiscussions = 0,
      ciStatus = ''passed''\<rparr>"
    by (simp add: readApprovalStatus_def)
next
  assume "writable e"
  then show "\<exists>r. assess e a = Inr r" by (simp add: assess_returns)
qed

theorem read_helpers_defaults_witness:
  "testAnalysisReport noReports = Absent \<and>
   codeStyleReviewResults noReports = Absent \<and>
   securityScanResults noReports = Absent \<and>
   performanceAnalysisResults noReports = Absent \<and>
   writable noReports \<and>
   readTestResults noReports =
     \<lparr>successRate = 0, coverage = 0, failedTests = 0, skippedTests = 0,
      lastRun = NoTimestamp\<rparr> \<and>
   readCodeQualityResults noReports =
     \<lparr>codeQualityResults.criticalIssues = 0, highIssues = 0, styleScore = 0,
      lintErrors = 0\<rparr> \<and>
   readSecurityResults noReports =
     \<lparr>criticalVulnerabilities = 0, highVulnerabilities = 0,
      securityResults.securityScore = 0, dependencyIssues = 0\<rparr> \<and>
   readPerformanceResults noReports =
     \<lparr>performanceResults.criticalIssues = 0, performanceResults.performanceScore = 0,
      regressions = 0\<rparr> \<and>
   (\<exists>r. assess noReports MergeReadinessAssessor_new = Inr r)"
proof -
  have absent: "testAnalysisReport noReports = Absent"
    "codeStyleReviewResults noReports = Absent"
    "securityScanResults noReports = Absent"
    "performanceAnalysisResults noReports = Absent"
    and w: "writable noReports"
    by (simp_all add: noReports_def)
  with read_helpers_defaults [of noReports MergeReadinessAssessor_new]
  show ?thesis by blast
qed

text \<open>
  Not every \<open>read*\<close> helper returns only zero or false fields: the two helpers that read no
  file do not.
\<close>

theorem read_helpers_not_all_zero:
  "\<not> (documentationResults.readmeUpdated readDocumentationResults = False \<and>
      documentationResults.apiDocsUpdated readDocumentationResults = False \<and>
      documentationResults.changelogUpdated readDocumentationResults = False \<and>
      breakingChanges readDocumentationResults = 0) \<and>
   \<not> (approvalStatus.hasRequiredApprovals readApprovalStatus = False \<and>
      currentApprovals readApprovalStatus = 0 \<and>
      requiredApprovals readApprovalStatus = 0 \<and>
      requestedChanges readApprovalStatus = 0 \<and>
      unresolvedDiscussions readApprovalStatus = 0 \<and>
      ciStatus readApprovalStatus = [])"
  by (simp add: readDocumentationResults_def readApprovalStatus_def)

section \<open>Properties of the pattern scanner\<close>

lemma length_splitOn: "length (splitOn sep s) = Suc (length (filter (\<lambda>c. c = sep) s))"
  by (induction s) (auto split: list.splits)

lemma pushIssue_line:
  "issue.line (last (pushIssue content r acc m)) =
     Suc (length (filter (\<lambda>c. c = newline) (take (nat (max 0 (indexOf content m))) content)))"
  by (simp add: pushIssue_def push_def substring0_def length_splitOn Let_def)

lemma length_foldl_pushIssue:
  "length (foldl (pushIssue content r) acc ms) = length acc + length ms"
  by (induction ms arbitrary: acc rule: rev_induct)
    (simp_all add: pushIssue_def push_def Let_def)

lemma foldl_pushIssue:
  "foldl (pushIssue content r) acc ms = acc @ foldl (pushIssue content r) [] ms"
proof (induction ms arbitrary: acc rule: rev_induct)
  case Nil
  show ?case by simp
next
  case (snoc m ms)
  have "foldl (pushIssue content r) acc (ms @ [m]) =
      pushIssue content r (foldl (pushIssue content r) acc ms) m" by simp
  also have "\<dots> = pushIssue content r (acc @ foldl (pushIssue content r) [] ms) m"
    using snoc.IH [of acc] by simp
  also have "\<dots> = acc @ pushIssue content r (foldl (pushIssue content r) [] ms) m"
    by (simp add: pushIssue_def push_def Let_def)
  finally show ?case by simp
qed

lemma checkPatterns_append:
  "checkPatterns content patterns acc = acc @ checkPatterns content patterns []"
proof (induction patterns arbitrary: acc rule: rev_induct)
  case Nil
  show ?case by (simp add: checkPatterns_def)
next
  case (snoc r rs)
  show ?case
  proof (cases "String_match content (rule.pattern r)")
    case None
    with snoc.IH [of acc] show ?thesis by (simp add: checkPatterns_def)
  next
    case (Some ms)
    have "checkPatterns content (rs @ [r]) acc =
        foldl (pushIssue content r) (checkPatterns content rs acc) ms"
      using Some by (simp add: checkPatterns_def)
    also have "\<dots> = foldl (pushIssue content r) (acc @ checkPatterns content rs []) ms"
      using snoc.IH [of acc] by simp
    also have "\<dots> = acc @ checkPatterns content rs [] @ foldl (pushIssue content r) [] ms"
      using foldl_pushIssue [of content r "acc @ checkPatterns content rs []" ms] by simp
    also have "checkPatterns content rs [] @ foldl (pushIssue content r) [] ms =
        foldl (pushIssue content r) (checkPatterns content rs []) ms"
      using foldl_pushIssue [of content r "checkPatterns content rs []" ms] by simp
    also have "\<dots> = checkPatterns content (rs @ [r]) []"
      using Some by (simp add: checkPatterns_def)
    finally show ?thesis .
  qed
qed

text \<open>One issue is emitted for each occurrence of each rule.\<close>

lemma length_checkPatterns:
  "length (checkPatterns content patterns acc) =
     length acc + (\<Sum>r\<leftarrow>patterns. length (occurrences (rule.pattern r) content))"
proof (induction patterns arbitrary: acc rule: rev_induct)
  case Nil
  show ?case by (simp add: checkPatterns_def)
next
  case (snoc r rs)
  have step: "checkPatterns content (rs @ [r]) acc =
      (case String_match content (rule.pattern r) of
         None \<Rightarrow> checkPatterns content rs acc
       | Some ms \<Rightarrow> foldl (pushIssue content r) (checkPatterns content rs acc) ms)"
    by (simp add: checkPatterns_def split: option.split)
  show ?case
  proof (cases "occurrences (rule.pattern r) content")
    case Nil
    then have "String_match content (rule.pattern r) = None"
      by (simp add: String_match_def)
    with step snoc.IH [of acc] Nil show ?thesis by simp
  next
    case (Cons x xs)
    then have "String_match content (rule.pattern r) =
        Some (map snd (occurrences (rule.pattern r) content))"
      by (simp add: String_match_def)
    with step snoc.IH [of acc] show ?thesis
      by (simp add: length_foldl_pushIssue)
  qed
qed

text \<open>
  C3, at a file in which the same text matches twice. In \<open>twoRandoms\<close> the rule
  \<open>/Math\.random\(\)/\<close> of \<open>securityIssues\<close> has two occurrences, at offsets 0 and 14, on
  lines 1 and 2 (1 plus the number of line feeds before the offset). \<open>checkPatterns\<close>
  emits one issue for each, and gives both the line 1: it looks the matched text up with
  \<open>indexOf\<close>, which finds the first occurrence of that text.
\<close>

theorem checkPatterns_repeated_match_line:
  "occurrences (rule.pattern (securityIssues ! 3)) twoRandoms =
     [(0, ''Math.random()''), (14, ''Math.random()'')] \<and>
   map (\<lambda>(j, m). Suc (length (filter (\<lambda>c. c = newline) (take j twoRandoms))))
     (occurrences (rule.pattern (securityIssues ! 3)) twoRandoms) = [1, 2] \<and>
   map issue.line (checkPatterns twoRandoms securityIssues []) = [1, 1]"
  by code_simp

text \<open>
  C9. The scan is a function of the file text and the rule set alone: what \<open>checkPatterns\<close>
  appends does not depend on the issues already collected, so two scans of the same
  content append the same issues, in the same order, with the same line numbers. The score
  of the style review depends on the collected violations and metrics alone, not on what an
  earlier run left in the other fields, and computing it again changes nothing.
\<close>

theorem scan_and_score_deterministic:
  "checkPatterns content patterns acc = acc @ checkPatterns content patterns [] \<and>
   (violations r = violations r' \<and> metrics r = metrics r' \<longrightarrow>
      styleResults.score (CodeStyleReviewer_calculateScore r) =
      styleResults.score (CodeStyleReviewer_calculateScore r')) \<and>
   CodeStyleReviewer_calculateScore (CodeStyleReviewer_calculateScore r) =
     CodeStyleReviewer_calculateScore r"
proof (intro conjI impI)
  show "checkPatterns content patterns acc = acc @ checkPatterns content patterns []"
    by (rule checkPatterns_append)
next
  assume "violations r = violations r' \<and> metrics r = metrics r'"
  then show "styleResults.score (CodeStyleReviewer_calculateScore r) =
      styleResults.score (CodeStyleReviewer_calculateScore r')"
    by (simp add: CodeStyleReviewer_calculateScore_def calculateModernizationBonus_def Let_def)
next
  show "CodeStyleReviewer_calculateScore (CodeStyleReviewer_calculateScore r) =
     CodeStyleReviewer_calculateScore r"
    by (simp add: CodeStyleReviewer_calculateScore_def calculateModernizationBonus_def Let_def)
qed

theorem scan_and_score_deterministic_witness:
  "violations styleFresh = violations styleScored \<and>
   metrics styleFresh = metrics styleScored \<and>
   styleFresh \<noteq> styleScored \<and>
   styleResults.score (CodeStyleReviewer_calculateScore styleFresh) =
     styleResults.score (CodeStyleReviewer_calculateScore styleScored)"
proof -
  have same: "violations styleFresh = violations styleScored \<and>
      metrics styleFresh = metrics styleScored"
    by (simp add: styleFresh_def styleScored_def)
  have differ: "styleFresh \<noteq> styleScored"
    by (simp add: styleFresh_def styleScored_def)
  from scan_and_score_deterministic [where r = styleFresh and r' = styleScored]
  have "violations styleFresh = violations styleScored \<and>
      metrics styleFresh = metrics styleScored \<longrightarrow>
      styleResults.score (CodeStyleReviewer_calculateScore styleFresh) =
      styleResults.score (CodeStyleReviewer_calculateScore styleScored)"
    by blast
  with same differ show ?thesis by blast
qed

section \<open>Properties of the sample utilities\<close>

text \<open>
  C7. On a new \<open>Calculator\<close>, \<open>add(2, 3)\<close> and then \<open>subtract(5, 2)\<close> leave a history of
  length 2 whose \<open>operation\<close> fields are \<open>add\<close> and \<open>subtract\<close>, in this order; and after
  \<open>clearHistory()\<close> the history of any calculator has length 0.
\<close>

theorem calculator_history:
  "length (getHistory
     (snd (Calculator_subtract 5 2 (snd (Calculator_add 2 3 Calculator_new))))) = 2 \<and>
   map operation (getHistory
     (snd (Calculator_subtract 5 2 (snd (Calculator_add 2 3 Calculator_new))))) =
     [''add'', ''subtract''] \<and>
   length (getHistory (clearHistory c)) = 0"
  by (simp add: getHistory_def clearHistory_def Calculator_subtract_def Calculator_add_def
      Calculator_new_def push_def Let_def)

text \<open>
  C8. \<open>validateEmail\<close> accepts \<open>user@example.com\<close> and rejects \<open>not-an-email\<close> and
  \<open>@domain.com\<close>.
\<close>

theorem validateEmail_examples:
  "validateEmail ''user@example.com'' \<and>
   \<not> validateEmail ''not-an-email'' \<and>
   \<not> validateEmail ''@domain.com''"
  by code_simp

end
